theory Spec2Isabelle
  imports Main "HOL-Library.Word" "HOL-Library.Sublist"
begin

section \<open>The Stackdriver input of the agent: a shallow embedding\<close>

text \<open>
  The embedded code is the Go package \<open>stackdriver\<close> (the time-series harvesting engine).
  Go strings are byte lists (\<open>string\<close>), slices are lists (a nil slice and an empty one
  are both the empty list, except where the code tells them apart), pointers that may be
  nil are options, \<open>int32\<close> and \<open>int64\<close> are machine words.

  \<open>time.Time\<close> is an integer count of nanoseconds since the zero time (year 1), and a
  \<open>time.Duration\<close> an integer count of nanoseconds. Both are 64-bit quantities in Go; the
  embedding uses unbounded integers and leaves the wrap-around at the ends of that range
  out (the configured durations are minutes and hours).
\<close>

subsection \<open>Library functions of Go\<close>

type_synonym int32 = "32 word"
type_synonym int64 = "64 word"
type_synonym Time = int
type_synonym Duration = int

definition Second :: Duration where
  "Second = 1000000000"

definition Minute :: Duration where
  "Minute = 60 * Second"

definition Hour :: Duration where
  "Hour = 60 * Minute"

text \<open>Seconds between the zero time and the Unix epoch (\<open>unixToInternal\<close> of package time).\<close>

definition unixToInternal :: int where
  "unixToInternal = 62135596800"

text \<open>\<open>t.Unix()\<close>, \<open>time.Unix(sec, 0)\<close>, \<open>t.IsZero()\<close>, \<open>t.Add(d)\<close> and \<open>t.Sub(u)\<close>.\<close>

definition Unix :: "Time \<Rightarrow> int" where
  "Unix t = t div Second - unixToInternal"

definition time_Unix :: "int \<Rightarrow> Time" where
  "time_Unix sec = (sec + unixToInternal) * Second"

definition IsZero :: "Time \<Rightarrow> bool" where
  "IsZero t = (t = 0)"

definition Add :: "Time \<Rightarrow> Duration \<Rightarrow> Time" where
  "Add t d = t + d"

definition Sub :: "Time \<Rightarrow> Time \<Rightarrow> Duration" where
  "Sub t u = t - u"

text \<open>\<open>strings.HasPrefix(s, prefix)\<close>.\<close>

fun HasPrefix :: "string \<Rightarrow> string \<Rightarrow> bool" where
  "HasPrefix s [] = True"
| "HasPrefix [] (p # ps) = False"
| "HasPrefix (c # s) (p # ps) = (c = p \<and> HasPrefix s ps)"

text \<open>
  \<open>strings.LastIndex(s, sep)\<close> for a separator of one byte: Go scans the bytes from the
  last one down (\<open>for i := len(s) - 1; i >= 0; i--\<close>) and returns \<open>-1\<close> when none matches.
  The third argument is the number of bytes still to scan.
\<close>

fun LastIndexByte :: "string \<Rightarrow> char \<Rightarrow> nat \<Rightarrow> int" where
  "LastIndexByte s c 0 = - 1"
| "LastIndexByte s c (Suc i) = (if s ! i = c then int i else LastIndexByte s c i)"

definition LastIndex :: "string \<Rightarrow> char \<Rightarrow> int" where
  "LastIndex s c = LastIndexByte s c (length s)"

text \<open>\<open>strings.Join(elems, sep)\<close>.\<close>

fun Join :: "string list \<Rightarrow> string \<Rightarrow> string" where
  "Join [] sep = []"
| "Join [x] sep = x"
| "Join (x # y # ys) sep = x @ sep @ Join (y # ys) sep"

text \<open>
  \<open>strings.ToLower(s)\<close> on ASCII: the letters \<open>A\<close> to \<open>Z\<close> are mapped to \<open>a\<close> to \<open>z\<close>,
  every other byte is kept. (Go also lowers letters outside ASCII; the enumerant names
  the code lowers are ASCII.)
\<close>

definition toLowerByte :: "char \<Rightarrow> char" where
  "toLowerByte c =
     (case map_of (zip ''ABCDEFGHIJKLMNOPQRSTUVWXYZ'' ''abcdefghijklmnopqrstuvwxyz'') c of
        None \<Rightarrow> c
      | Some l \<Rightarrow> l)"

definition ToLower :: "string \<Rightarrow> string" where
  "ToLower s = map toLowerByte s"

subsection \<open>The plugin's data\<close>

record Label =
  Key :: string
  Value :: string

record ListTimeSeriesFilter =
  ResourceLabels :: "Label list"
  MetricLabels :: "Label list"

text \<open>
  The request messages of the monitoring API, with the fields the plugin sets. The
  timestamps of an interval hold whole seconds.
\<close>

record TimeInterval =
  EndTime :: int
  StartTime :: int

record Aggregation =
  AlignmentPeriod :: int
  PerSeriesAligner :: int32

record ListTimeSeriesRequest =
  ts_Name :: string
  ts_Filter :: string
  ts_Interval :: TimeInterval
  ts_Aggregation :: "Aggregation option"

record ListMetricDescriptorsRequest =
  md_Name :: string
  md_Filter :: string

record timeSeriesConf =
  listTimeSeriesRequest :: ListTimeSeriesRequest
  measurement :: string
  fieldKey :: string

text \<open>
  The cache tells a nil slice of configurations (\<open>None\<close>) from a slice that is there,
  empty or not: \<open>IsValid\<close> tests it against nil.
\<close>

record timeSeriesConfCache =
  Generated :: Time
  TimeSeriesConfs :: "timeSeriesConf list option"
  TTL :: Duration

text \<open>
  The plugin. \<open>client\<close> records whether the API client is set (the client's behaviour is
  part of the environment below); the logger is left out.
\<close>

record Stackdriver =
  prevEnd :: Time
  client :: bool
  confCache :: "timeSeriesConfCache option"
  Filter :: "ListTimeSeriesFilter option"
  Project :: string
  MetricTypePrefixExclude :: "string list"
  MetricTypePrefixInclude :: "string list"
  DistributionAggregationAligners :: "string list"
  CacheTTL :: Duration
  Delay :: Duration
  Window :: Duration
  RateLimit :: int
  GatherRawDistributionBuckets :: bool

definition defaultRateLimit :: int where
  "defaultRateLimit = 14"

definition defaultCacheTTL :: Duration where
  "defaultCacheTTL = 1 * Hour"

definition defaultWindow :: Duration where
  "defaultWindow = 1 * Minute"

definition defaultDelay :: Duration where
  "defaultDelay = 5 * Minute"

subsection \<open>The window of a collection\<close>

text \<open>
  \<open>updateWindow\<close> reads the clock once for the start (in the first two cases) and once
  more for the end; \<open>nowStart\<close> and \<open>nowEnd\<close> are these two readings of \<open>time.Now()\<close>.
\<close>

definition updateWindow :: "Stackdriver \<Rightarrow> Time \<Rightarrow> Time \<Rightarrow> Time \<Rightarrow> Time \<times> Time" where
  "updateWindow s nowStart nowEnd prevEnd' =
     (let start =
            (if Window s \<noteq> 0 then Add (Add nowStart (- Delay s)) (- Window s)
             else if IsZero prevEnd' then Add (Add nowStart (- Delay s)) (- defaultWindow)
             else prevEnd');
          end' = Add nowEnd (- Delay s)
      in (start, end'))"

subsection \<open>Filters and configurations of a time series\<close>

text \<open>
  \<open>includeExcludeHelper\<close>: the two loops return at the first prefix that matches;
  \<open>anyHasPrefix\<close> is that loop.
\<close>

fun anyHasPrefix :: "string \<Rightarrow> string list \<Rightarrow> bool" where
  "anyHasPrefix key [] = False"
| "anyHasPrefix key (p # ps) = (if HasPrefix key p then True else anyHasPrefix key ps)"

definition includeExcludeHelper :: "string \<Rightarrow> string list \<Rightarrow> string list \<Rightarrow> bool" where
  "includeExcludeHelper key includes excludes =
     (if length includes > 0 then anyHasPrefix key includes
      else if length excludes > 0 then \<not> anyHasPrefix key excludes
      else True)"

definition includeMetricType :: "Stackdriver \<Rightarrow> string \<Rightarrow> bool" where
  "includeMetricType s metricType =
     includeExcludeHelper metricType (MetricTypePrefixInclude s) (MetricTypePrefixExclude s)"

definition functions' :: "string list" where
  "functions' = [''starts_with'', ''ends_with'', ''has_substring'', ''one_of'']"

text \<open>
  The loop over the labels of one category in \<open>newListTimeSeriesFilter\<close>. The code has it
  twice, with the formats \<open>resource.labels.%s = %s\<close> and \<open>metric.labels.%s = %s\<close>; \<open>kind\<close>
  is \<open>resource\<close> or \<open>metric\<close>.
\<close>

fun labelsFilter :: "string \<Rightarrow> Label list \<Rightarrow> string list" where
  "labelsFilter kind [] = []"
| "labelsFilter kind (l # ls) =
     (if includeExcludeHelper (Value l) functions' []
      then kind @ ''.labels.'' @ Key l @ '' = '' @ Value l
      else kind @ ''.labels.'' @ Key l @ '' = \"'' @ Value l @ ''\"'')
     # labelsFilter kind ls"

definition appendLabels :: "string \<Rightarrow> string \<Rightarrow> Label list \<Rightarrow> string" where
  "appendLabels filterString kind labels =
     (if length labels > 0 then
        (let labelsFilter' = labelsFilter kind labels in
         if length labelsFilter' = 1 then filterString @ '' AND '' @ labelsFilter' ! 0
         else filterString @ '' AND ('' @ Join labelsFilter' '' OR '' @ '')'')
      else filterString)"

definition newListTimeSeriesFilter :: "Stackdriver \<Rightarrow> string \<Rightarrow> string" where
  "newListTimeSeriesFilter s metricType =
     (let filterString = ''metric.type = \"'' @ metricType @ ''\"'' in
      case Filter s of
        None \<Rightarrow> filterString
      | Some f \<Rightarrow>
          appendLabels (appendLabels filterString ''resource'' (ResourceLabels f))
            ''metric'' (MetricLabels f))"

definition newTimeSeriesConf :: "Stackdriver \<Rightarrow> string \<Rightarrow> Time \<Rightarrow> Time \<Rightarrow> timeSeriesConf" where
  "newTimeSeriesConf s metricType startTime endTime =
     (let filter' = newListTimeSeriesFilter s metricType;
          interval = \<lparr>EndTime = Unix endTime, StartTime = Unix startTime\<rparr>;
          tsReq = \<lparr>ts_Name = ''projects/'' @ Project s, ts_Filter = filter',
                   ts_Interval = interval, ts_Aggregation = None\<rparr>;
          cfg = \<lparr>listTimeSeriesRequest = tsReq, measurement = metricType, fieldKey = ''value''\<rparr>;
          slashIdx = LastIndex metricType (CHR ''/'')
      in if slashIdx > 0
         then cfg\<lparr>measurement := take (nat slashIdx) metricType,
                  fieldKey := drop (nat (slashIdx + 1)) metricType\<rparr>
         else cfg)"

text \<open>
  The enumeration \<open>Aggregation_Aligner\<close> of the monitoring API, as the generated tables
  \<open>Aggregation_Aligner_name\<close> and \<open>Aggregation_Aligner_value\<close> of the protobuf package
  list it (the package is a dependency, not part of the repository). The zero enumerant
  is \<open>ALIGN_NONE\<close>.
\<close>

definition Aggregation_Aligner_name :: "(int32 \<times> string) list" where
  "Aggregation_Aligner_name =
     [(0, ''ALIGN_NONE''), (1, ''ALIGN_DELTA''), (2, ''ALIGN_RATE''),
      (3, ''ALIGN_INTERPOLATE''), (4, ''ALIGN_NEXT_OLDER''), (10, ''ALIGN_MIN''),
      (11, ''ALIGN_MAX''), (12, ''ALIGN_MEAN''), (13, ''ALIGN_COUNT''), (14, ''ALIGN_SUM''),
      (15, ''ALIGN_STDDEV''), (16, ''ALIGN_COUNT_TRUE''), (24, ''ALIGN_COUNT_FALSE''),
      (17, ''ALIGN_FRACTION_TRUE''), (18, ''ALIGN_PERCENTILE_99''),
      (19, ''ALIGN_PERCENTILE_95''), (20, ''ALIGN_PERCENTILE_50''),
      (21, ''ALIGN_PERCENTILE_05''), (23, ''ALIGN_PERCENT_CHANGE'')]"

definition Aggregation_Aligner_value :: "(string \<times> int32) list" where
  "Aggregation_Aligner_value = map (\<lambda>(n, name). (name, n)) Aggregation_Aligner_name"

text \<open>
  \<open>initForAggregate\<close>. A lookup in a Go map gives the zero value of the element type for
  a key that is absent: \<open>0\<close> and \<open>false\<close> in the first table, the empty string in the
  second.
\<close>

definition initForAggregate :: "string \<Rightarrow> timeSeriesConf \<Rightarrow> timeSeriesConf" where
  "initForAggregate alignerStr t =
     (let (alignerInt, isValid) =
            (case map_of Aggregation_Aligner_value alignerStr of
               None \<Rightarrow> (0, False)
             | Some v \<Rightarrow> (v, True));
          alignerStr' =
            (if \<not> isValid
             then (case map_of Aggregation_Aligner_name alignerInt of None \<Rightarrow> [] | Some n \<Rightarrow> n)
             else alignerStr);
          aligner = alignerInt;
          agg = \<lparr>AlignmentPeriod = 60, PerSeriesAligner = aligner\<rparr>
      in t\<lparr>fieldKey := fieldKey t @ ''_'' @ ToLower alignerStr',
           listTimeSeriesRequest := (listTimeSeriesRequest t)\<lparr>ts_Aggregation := Some agg\<rparr>\<rparr>)"

subsection \<open>The filter string, as the specification words it\<close>

text \<open>
  The specification's description of the filter string, to be compared with
  \<open>newListTimeSeriesFilter\<close>: a value is a call of a filter function when one of the four
  function names is a prefix of it; a label is rendered as \<open>kind.labels.key = value\<close>, the
  value quoted unless it is such a call; a category with no label adds nothing, with one
  label it adds \<open>AND\<close> and the label, with more it adds \<open>AND\<close> and the parenthesised
  labels separated by \<open>OR\<close>.
\<close>

definition isFilterFunction :: "string \<Rightarrow> bool" where
  "isFilterFunction v = (\<exists>f \<in> set functions'. prefix f v)"

definition labelClause :: "string \<Rightarrow> Label \<Rightarrow> string" where
  "labelClause kind l =
     kind @ ''.labels.'' @ Key l @ '' = '' @
     (if isFilterFunction (Value l) then Value l else ''\"'' @ Value l @ ''\"'')"

definition categoryClause :: "string \<Rightarrow> Label list \<Rightarrow> string" where
  "categoryClause kind ls =
     (case map (labelClause kind) ls of
        [] \<Rightarrow> []
      | [c] \<Rightarrow> '' AND '' @ c
      | c # cs \<Rightarrow> '' AND ('' @ c @ concat (map (\<lambda>d. '' OR '' @ d) cs) @ '')'')"

subsection \<open>Example values\<close>

text \<open>
  The plugin as \<open>init\<close> creates it (default cache duration, rate limit and delay, raw
  buckets gathered, no aligner), for a project \<open>demo\<close> and with no include prefix.
\<close>

definition examplePlugin :: Stackdriver where
  "examplePlugin =
     \<lparr>prevEnd = 0, client = False, confCache = None, Filter = None, Project = ''demo'',
      MetricTypePrefixExclude = [], MetricTypePrefixInclude = [],
      DistributionAggregationAligners = [], CacheTTL = defaultCacheTTL, Delay = defaultDelay,
      Window = 0, RateLimit = defaultRateLimit, GatherRawDistributionBuckets = True\<rparr>"

definition exampleConf :: timeSeriesConf where
  "exampleConf = newTimeSeriesConf examplePlugin ''custom.googleapis.com/latency'' 0 0"

section \<open>Properties\<close>

subsection \<open>Strings\<close>

lemma LastIndexByte_absent:
  "n \<le> length s \<Longrightarrow> c \<notin> set (take n s) \<Longrightarrow> LastIndexByte s c n = - 1"
  by (induction n) (auto simp: take_Suc_conv_app_nth)

lemma LastIndexByte_beyond:
  "c \<notin> set q \<Longrightarrow> k \<le> length q \<Longrightarrow>
   LastIndexByte (p @ c # q) c (Suc (length p + k)) = int (length p)"
proof (induction k)
  case 0
  then show ?case by simp
next
  case (Suc k)
  then have "q ! k \<noteq> c"
    using nth_mem [of k q] by auto
  moreover have "(p @ c # q) ! Suc (length p + k) = q ! k"
    by (simp add: nth_append)
  ultimately show ?case using Suc by simp
qed

lemma LastIndex_absent: "c \<notin> set s \<Longrightarrow> LastIndex s c = - 1"
  by (simp add: LastIndex_def LastIndexByte_absent)

lemma LastIndex_split: "c \<notin> set q \<Longrightarrow> LastIndex (p @ c # q) c = int (length p)"
  using LastIndexByte_beyond [of c q "length q" p] by (simp add: LastIndex_def)

lemma HasPrefix_prefix: "HasPrefix s p = prefix p s"
  by (induction s p rule: HasPrefix.induct) auto

lemma anyHasPrefix_iff: "anyHasPrefix key ps = (\<exists>p \<in> set ps. prefix p key)"
  by (induction ps) (auto simp: HasPrefix_prefix)

lemma Join_Cons: "Join (c # cs) sep = c @ concat (map (\<lambda>d. sep @ d) cs)"
  by (induction cs arbitrary: c) simp_all

subsection \<open>Measurement and field key of a configuration\<close>

text \<open>
  Claim C7, as amended. \<open>newTimeSeriesConf\<close> splits the metric type at its last \<open>/\<close> when
  that slash is not the first byte: what stands before it is the measurement, what stands
  after it the field key. When the last slash is the first byte, and when there is no
  slash, the measurement is the whole metric type and the field key is \<open>value\<close>.
\<close>

theorem newTimeSeriesConf_split:
  "(CHR ''/'' \<notin> set q \<and> p \<noteq> [] \<longrightarrow>
      measurement (newTimeSeriesConf s (p @ ''/'' @ q) startTime endTime) = p \<and>
      fieldKey (newTimeSeriesConf s (p @ ''/'' @ q) startTime endTime) = q) \<and>
   (CHR ''/'' \<notin> set q \<longrightarrow>
      measurement (newTimeSeriesConf s (''/'' @ q) startTime endTime) = ''/'' @ q \<and>
      fieldKey (newTimeSeriesConf s (''/'' @ q) startTime endTime) = ''value'') \<and>
   (CHR ''/'' \<notin> set metricType \<longrightarrow>
      measurement (newTimeSeriesConf s metricType startTime endTime) = metricType \<and>
      fieldKey (newTimeSeriesConf s metricType startTime endTime) = ''value'')"
proof (intro conjI impI)
  assume a: "CHR ''/'' \<notin> set q \<and> p \<noteq> []"
  then have idx: "LastIndex (p @ ''/'' @ q) (CHR ''/'') = int (length p)"
    using LastIndex_split [of "CHR ''/''" q p] by simp
  from a have pos: "0 < int (length p)" by simp
  show "measurement (newTimeSeriesConf s (p @ ''/'' @ q) startTime endTime) = p"
    using pos by (simp add: newTimeSeriesConf_def Let_def idx del: append.simps)
  show "fieldKey (newTimeSeriesConf s (p @ ''/'' @ q) startTime endTime) = q"
    using pos by (simp add: newTimeSeriesConf_def Let_def idx nat_add_distrib del: append.simps)
next
  assume a: "CHR ''/'' \<notin> set q"
  then have idx: "LastIndex (''/'' @ q) (CHR ''/'') = 0"
    using LastIndex_split [of "CHR ''/''" q "[]"] by simp
  show "measurement (newTimeSeriesConf s (''/'' @ q) startTime endTime) = ''/'' @ q"
    by (simp add: newTimeSeriesConf_def Let_def idx del: append.simps)
  show "fieldKey (newTimeSeriesConf s (''/'' @ q) startTime endTime) = ''value''"
    by (simp add: newTimeSeriesConf_def Let_def idx del: append.simps)
next
  assume a: "CHR ''/'' \<notin> set metricType"
  then have idx: "LastIndex metricType (CHR ''/'') = - 1"
    by (rule LastIndex_absent)
  show "measurement (newTimeSeriesConf s metricType startTime endTime) = metricType"
    by (simp add: newTimeSeriesConf_def Let_def idx)
  show "fieldKey (newTimeSeriesConf s metricType startTime endTime) = ''value''"
    by (simp add: newTimeSeriesConf_def Let_def idx)
qed

theorem newTimeSeriesConf_split_witness:
  "measurement (newTimeSeriesConf examplePlugin ''custom.googleapis.com/foo/bar'' 0 0)
     = ''custom.googleapis.com/foo'' \<and>
   fieldKey (newTimeSeriesConf examplePlugin ''custom.googleapis.com/foo/bar'' 0 0) = ''bar'' \<and>
   measurement (newTimeSeriesConf examplePlugin ''/bar'' 0 0) = ''/bar'' \<and>
   fieldKey (newTimeSeriesConf examplePlugin ''/bar'' 0 0) = ''value'' \<and>
   measurement (newTimeSeriesConf examplePlugin ''uptime'' 0 0) = ''uptime'' \<and>
   fieldKey (newTimeSeriesConf examplePlugin ''uptime'' 0 0) = ''value''"
  using newTimeSeriesConf_split
    [of "''bar''" "''custom.googleapis.com/foo''" examplePlugin 0 0 "''uptime''"]
  by simp

text \<open>
  Claim C7 as it is worded fails at the metric type \<open>/foo\<close>: it holds a slash, and the
  field key is still \<open>value\<close> (and the measurement is \<open>/foo\<close>, not the empty prefix).
\<close>

theorem newTimeSeriesConf_leading_slash_counterexample:
  "CHR ''/'' \<in> set ''/foo'' \<and>
   fieldKey (newTimeSeriesConf examplePlugin ''/foo'' 0 0) = ''value'' \<and>
   measurement (newTimeSeriesConf examplePlugin ''/foo'' 0 0) = ''/foo''"
  by (simp add: newTimeSeriesConf_def LastIndex_def Let_def)

subsection \<open>The filter of a request\<close>

lemma includeExcludeHelper_functions:
  "includeExcludeHelper v functions' [] = isFilterFunction v"
  by (simp add: includeExcludeHelper_def anyHasPrefix_iff isFilterFunction_def functions'_def)

lemma labelsFilter_map: "labelsFilter kind ls = map (labelClause kind) ls"
  by (induction ls) (simp_all add: labelClause_def includeExcludeHelper_functions)

lemma appendLabels_clause:
  "appendLabels filterString kind ls = filterString @ categoryClause kind ls"
proof (cases ls)
  case Nil
  then show ?thesis by (simp add: appendLabels_def categoryClause_def)
next
  case (Cons l ls')
  show ?thesis
  proof (cases ls')
    case Nil
    with Cons show ?thesis
      by (simp add: appendLabels_def categoryClause_def labelsFilter_map)
  next
    case (Cons l' ls'')
    with \<open>ls = l # ls'\<close> show ?thesis
      by (simp add: appendLabels_def categoryClause_def labelsFilter_map Join_Cons comp_def
          del: Join.simps)
  qed
qed

text \<open>
  Claim C6. The filter string is the base clause \<open>metric.type = "<type>"\<close>, followed by
  the clause of the resource labels and then by the clause of the metric labels, each as
  \<open>categoryClause\<close> words it: nothing for no label, \<open>AND\<close> and the label for one label,
  \<open>AND\<close> and the parenthesised, \<open>OR\<close>-separated labels for more; a value is left unquoted
  exactly when one of \<open>starts_with\<close>, \<open>ends_with\<close>, \<open>has_substring\<close>, \<open>one_of\<close> is a prefix
  of it (this is how \<open>includeExcludeHelper\<close> matches), and is quoted otherwise.
\<close>

theorem newListTimeSeriesFilter_clauses:
  "newListTimeSeriesFilter s metricType =
     ''metric.type = \"'' @ metricType @ ''\"'' @
     (case Filter s of
        None \<Rightarrow> []
      | Some f \<Rightarrow> categoryClause ''resource'' (ResourceLabels f) @
                  categoryClause ''metric'' (MetricLabels f))"
  by (simp add: newListTimeSeriesFilter_def appendLabels_clause split: option.split)

theorem newListTimeSeriesFilter_clauses_witness:
  "newListTimeSeriesFilter
     (examplePlugin\<lparr>Filter := Some \<lparr>ResourceLabels = [\<lparr>Key = ''k'', Value = ''v''\<rparr>],
                                     MetricLabels = []\<rparr>\<rparr>) ''X''
     = ''metric.type = \"X\" AND resource.labels.k = \"v\"'' \<and>
   newListTimeSeriesFilter
     (examplePlugin\<lparr>Filter := Some
        \<lparr>ResourceLabels = [\<lparr>Key = ''zone'', Value = ''starts_with(\"us-\")''\<rparr>],
         MetricLabels = [\<lparr>Key = ''device_name'', Value = ''one_of(\"a\",\"b\")''\<rparr>,
                         \<lparr>Key = ''state'', Value = ''used''\<rparr>]\<rparr>\<rparr>) ''X''
     = ''metric.type = \"X\" AND resource.labels.zone = starts_with(\"us-\") AND (metric.labels.device_name = one_of(\"a\",\"b\") OR metric.labels.state = \"used\")''"
  using newListTimeSeriesFilter_clauses
      [of "examplePlugin\<lparr>Filter := Some \<lparr>ResourceLabels = [\<lparr>Key = ''k'', Value = ''v''\<rparr>],
                                          MetricLabels = []\<rparr>\<rparr>" "''X''"]
    newListTimeSeriesFilter_clauses
      [of "examplePlugin\<lparr>Filter := Some
             \<lparr>ResourceLabels = [\<lparr>Key = ''zone'', Value = ''starts_with(\"us-\")''\<rparr>],
              MetricLabels = [\<lparr>Key = ''device_name'', Value = ''one_of(\"a\",\"b\")''\<rparr>,
                              \<lparr>Key = ''state'', Value = ''used''\<rparr>]\<rparr>\<rparr>" "''X''"]
  by (simp add: categoryClause_def labelClause_def isFilterFunction_def functions'_def
      examplePlugin_def)

subsection \<open>Aggregated configurations\<close>

lemma unrecognized_ALIGN_BOGUS: "map_of Aggregation_Aligner_value ''ALIGN_BOGUS'' = None"
  by (simp add: Aggregation_Aligner_value_def Aggregation_Aligner_name_def)

lemma exampleConf_fieldKey: "fieldKey exampleConf = ''latency''"
  by (simp add: exampleConf_def newTimeSeriesConf_def LastIndex_def Let_def)

text \<open>
  Claim C1, as amended. For an aligner name that is not an enumerant of
  \<open>Aggregation_Aligner\<close>, \<open>initForAggregate\<close> does not fail and does not keep the name: it
  puts the name of the zero enumerant, \<open>ALIGN_NONE\<close>, in its place. The field key becomes
  the old field key followed by \<open>_align_none\<close>, and the request gets an aggregation with
  the aligner \<open>ALIGN_NONE\<close> (0) and an alignment period of 60 seconds; nothing else of the
  configuration changes.
\<close>

theorem initForAggregate_unrecognized:
  "map_of Aggregation_Aligner_value alignerStr = None \<Longrightarrow>
   initForAggregate alignerStr t =
     t\<lparr>fieldKey := fieldKey t @ ''_align_none'',
       listTimeSeriesRequest := (listTimeSeriesRequest t)
         \<lparr>ts_Aggregation := Some \<lparr>AlignmentPeriod = 60, PerSeriesAligner = 0\<rparr>\<rparr>\<rparr>"
  by (simp add: initForAggregate_def Aggregation_Aligner_name_def ToLower_def toLowerByte_def)

theorem initForAggregate_unrecognized_witness:
  "map_of Aggregation_Aligner_value ''ALIGN_BOGUS'' = None \<and>
   fieldKey (initForAggregate ''ALIGN_BOGUS'' exampleConf) = ''latency_align_none'' \<and>
   ts_Aggregation (listTimeSeriesRequest (initForAggregate ''ALIGN_BOGUS'' exampleConf))
     = Some \<lparr>AlignmentPeriod = 60, PerSeriesAligner = 0\<rparr>"
  using initForAggregate_unrecognized [OF unrecognized_ALIGN_BOGUS, of exampleConf]
  by (simp add: unrecognized_ALIGN_BOGUS exampleConf_fieldKey)

text \<open>
  Claim C1 as it is worded fails at the name \<open>ALIGN_BOGUS\<close>: the field key does not end
  in the lowered configured name.
\<close>

theorem initForAggregate_literal_name_counterexample:
  "map_of Aggregation_Aligner_value ''ALIGN_BOGUS'' = None \<and>
   fieldKey (initForAggregate ''ALIGN_BOGUS'' exampleConf)
     \<noteq> fieldKey exampleConf @ ''_'' @ ToLower ''ALIGN_BOGUS''"
  by (simp add: unrecognized_ALIGN_BOGUS exampleConf_fieldKey initForAggregate_def
      Aggregation_Aligner_name_def ToLower_def toLowerByte_def)

end
